theory Spec2Isabelle
  imports Main
begin

section \<open>Python strings\<close>

text \<open>
  A query text is a Python \<open>str\<close>. It is modelled as a \<open>string\<close> whose characters are
  the code points 0..255: \<open>is_space\<close> is \<open>str.isspace\<close> on these code points (the
  characters \<open>str.split()\<close> splits at) and \<open>lower_char\<close> is \<open>str.lower\<close> on one of them.
\<close>

definition is_space :: "char \<Rightarrow> bool" where
  "is_space c = (of_char c \<in> {9, 10, 11, 12, 13, 28, 29, 30, 31, 32, 133, 160 :: nat})"

definition lower_char :: "char \<Rightarrow> char" where
  "lower_char c =
     (let n = (of_char c :: nat)
      in if (65 \<le> n \<and> n \<le> 90) \<or> (192 \<le> n \<and> n \<le> 222 \<and> n \<noteq> 215)
         then char_of (n + 32) else c)"

definition lower :: "string \<Rightarrow> string" where
  "lower s = map lower_char s"

text \<open>
  \<open>str.split()\<close> without arguments: skip a run of whitespace, take the run of other
  characters that follows as one token, and go on behind it.
\<close>

function split :: "string \<Rightarrow> string list" where
  "split s =
     (case dropWhile is_space s of
        [] \<Rightarrow> []
      | c # cs \<Rightarrow>
          (c # takeWhile (\<lambda>x. \<not> is_space x) cs) # split (dropWhile (\<lambda>x. \<not> is_space x) cs))"
  by pat_completeness auto
termination
proof (relation "measure length", goal_cases)
  case 1
  show ?case by simp
next
  case (2 s c cs)
  have "length (dropWhile (\<lambda>x. \<not> is_space x) cs) \<le> length cs"
    by (rule length_dropWhile_le)
  also have "length cs < length (c # cs)" by simp
  also have "length (c # cs) \<le> length s"
    using length_dropWhile_le [of is_space s] 2 by simp
  finally show ?case by simp
qed

declare split.simps [simp del]

text \<open>\<open>str.strip()\<close> and the substring test \<open>sub in s\<close>.\<close>

definition strip :: "string \<Rightarrow> string" where
  "strip s = rev (dropWhile is_space (rev (dropWhile is_space s)))"

fun startswith :: "string \<Rightarrow> string \<Rightarrow> bool" where
  "startswith s [] = True"
| "startswith [] (p # ps) = False"
| "startswith (c # cs) (p # ps) = (c = p \<and> startswith cs ps)"

fun contains :: "string \<Rightarrow> string \<Rightarrow> bool" where
  "contains [] sub = (sub = [])"
| "contains (c # cs) sub = (startswith (c # cs) sub \<or> contains cs sub)"

section \<open>The query safety gate\<close>

subsection \<open>database_mcp_serverv2.py\<close>

definition DENIED_KEYWORDS :: "string list" where
  "DENIED_KEYWORDS = [''insert'', ''update'', ''delete'', ''drop'', ''truncate'', ''alter'']"

text \<open>
  \<open>_is_safe_query\<close> returns \<open>tokens and not any(k in tokens for k in _DENIED_KEYWORDS)\<close>:
  the empty token list itself when there is no token, a boolean otherwise. Its caller
  only tests the truth value.
\<close>

datatype safe_result = PyList "string list" | PyBool bool

fun truthy :: "safe_result \<Rightarrow> bool" where
  "truthy (PyList xs) = (xs \<noteq> [])"
| "truthy (PyBool b) = b"

definition is_safe_query :: "string \<Rightarrow> safe_result" where
  "is_safe_query sql =
     (let tokens = split (lower sql)
      in if tokens = [] then PyList tokens
         else PyBool (\<not> list_ex (\<lambda>k. k \<in> set tokens) DENIED_KEYWORDS))"

subsection \<open>database_mcp_server.py\<close>

definition is_safe_query_v1 :: "string \<Rightarrow> bool" where
  "is_safe_query_v1 sql =
     (let sql_lower = strip (lower sql)
      in if contains sql_lower ''delete'' then True
         else if contains sql_lower ''drop'' then True
         else if contains sql_lower ''insert'' then True
         else if contains sql_lower ''update'' then True
         else if contains sql_lower ''truncate'' then True
         else True)"

section \<open>Values, records and dictionaries\<close>

text \<open>
  The values a driver hands to the server. \<open>datetime.datetime\<close> and
  \<open>decimal.Decimal\<close> are the two classes the serialization tests for;
  \<open>datetime.date\<close> (not a subclass of \<open>datetime\<close>) and \<open>bytes\<close> stand for the
  other classes a column can have.
\<close>

datatype datetime =
  Datetime (year: nat) (month: nat) (day: nat) (hour: nat) (minute: nat) (second: nat)
    (microsecond: nat) (utcoffset: "int option")

datatype decimal = Decimal (negative: bool) (coefficient: nat) (exponent: int)
  | DecimalInfinity bool | DecimalNaN

datatype py_float = Float (mantissa: int) (binary_exponent: int) | FloatInfinity bool | FloatNaN

datatype pyvalue =
    PNone
  | PBool bool
  | PInt int
  | PFloat py_float
  | PStr string
  | PDatetime datetime
  | PDecimal decimal
  | PDate nat nat nat
  | PBytes "nat list"

text \<open>
  \<open>datetime.isoformat\<close> and \<open>float(Decimal)\<close> are library functions whose results the
  server stores without looking at them; they are parameters of the model.
\<close>

record pylib =
  isoformat :: "datetime \<Rightarrow> string"
  float_of :: "decimal \<Rightarrow> py_float"

datatype exn = KeyError string | AttributeError string | DriverError string

text \<open>
  An \<open>asyncpg.Record\<close> is the sequence of a row's columns, each a name and a value.
  \<open>row.keys()\<close> lists every column; \<open>row[key]\<close> finds a column by name (the last one,
  when several columns have the name) and raises \<open>KeyError\<close> when there is none.
\<close>

type_synonym record_row = "(string \<times> pyvalue) list"

definition record_keys :: "record_row \<Rightarrow> string list" where
  "record_keys row = map fst row"

definition record_getitem :: "record_row \<Rightarrow> string \<Rightarrow> exn + pyvalue" where
  "record_getitem row key =
     (case map_of (rev row) key of None \<Rightarrow> Inl (KeyError key) | Some v \<Rightarrow> Inr v)"

text \<open>
  A Python \<open>dict\<close> keeps its keys in insertion order; assigning to a key that is present
  replaces the value where it stands, assigning to a new key appends.
\<close>

type_synonym pydict = "(string \<times> pyvalue) list"

fun dict_setitem :: "pydict \<Rightarrow> string \<Rightarrow> pyvalue \<Rightarrow> pydict" where
  "dict_setitem [] key v = [(key, v)]"
| "dict_setitem ((k, x) # d) key v =
     (if k = key then (key, v) # d else (k, x) # dict_setitem d key v)"

text \<open>\<open>processed_row = {key: row[key] for key in row.keys()}\<close>\<close>

fun dict_of_keys :: "record_row \<Rightarrow> string list \<Rightarrow> pydict \<Rightarrow> exn + pydict" where
  "dict_of_keys row [] d = Inr d"
| "dict_of_keys row (key # keys) d =
     (case record_getitem row key of
        Inl e \<Rightarrow> Inl e
      | Inr v \<Rightarrow> dict_of_keys row keys (dict_setitem d key v))"

definition dict_of_record :: "record_row \<Rightarrow> exn + pydict" where
  "dict_of_record row = dict_of_keys row (record_keys row) []"

text \<open>
  The body of \<open>for key, value in processed_row.items()\<close>: one item of the dictionary is
  visited and the dictionary is updated under its key. The loop only assigns to keys that
  are present, so the items it visits are those the dictionary had when the loop began.
\<close>

definition convert_item :: "pylib \<Rightarrow> pydict \<Rightarrow> string \<times> pyvalue \<Rightarrow> pydict" where
  "convert_item lib d item =
     (case snd item of
        PDatetime t \<Rightarrow> dict_setitem d (fst item) (PStr (isoformat lib t))
      | PDecimal x \<Rightarrow> dict_setitem d (fst item) (PFloat (float_of lib x))
      | _ \<Rightarrow> d)"

definition process_row :: "pylib \<Rightarrow> record_row \<Rightarrow> exn + pydict" where
  "process_row lib row =
     (case dict_of_record row of
        Inl e \<Rightarrow> Inl e
      | Inr processed_row \<Rightarrow> Inr (foldl (convert_item lib) processed_row processed_row))"

text \<open>\<open>for row in rows: ... result.append(processed_row)\<close>\<close>

fun process_rows :: "pylib \<Rightarrow> record_row list \<Rightarrow> exn + pydict list" where
  "process_rows lib [] = Inr []"
| "process_rows lib (row # rows) =
     (case process_row lib row of
        Inl e \<Rightarrow> Inl e
      | Inr d \<Rightarrow> (case process_rows lib rows of Inl e \<Rightarrow> Inl e | Inr ds \<Rightarrow> Inr (d # ds)))"



section \<open>The PostgreSQL server (database_mcp_serverv2.py)\<close>

subsection \<open>The driver and the state of the process\<close>

text \<open>
  The database is reached through three calls of the driver: \<open>asyncpg.create_pool\<close>
  (\<open>connect\<close>; \<open>None\<close> when it succeeds, the exception otherwise), and, on a connection
  acquired from the pool, \<open>conn.fetch(sql, *args)\<close> and \<open>conn.fetchval(sql, *args)\<close>.
  An exception of the acquisition or of the statement is the \<open>Inl\<close> result.
\<close>

record driver =
  connect :: "int \<Rightarrow> int \<Rightarrow> exn option"
  fetch :: "string \<Rightarrow> pyvalue list \<Rightarrow> exn + record_row list"
  fetchval :: "string \<Rightarrow> pyvalue list \<Rightarrow> exn + pyvalue"

record pool =
  pool_id :: nat
  min_size :: int
  max_size :: int

text \<open>
  \<open>db_pool\<close> is the global \<open>_db_pool\<close>. \<open>pools_created\<close> counts the pools
  \<open>create_pool\<close> has opened, \<open>pools_closed\<close> those closed, and \<open>sent\<close> lists every
  statement handed to the database with its bind arguments, oldest first.
\<close>

record world =
  db_pool :: "pool option"
  pools_created :: nat
  pools_closed :: nat
  sent :: "(string \<times> pyvalue list) list"

definition init_db :: "driver \<Rightarrow> world \<Rightarrow> int \<Rightarrow> int \<Rightarrow> (exn + pool) \<times> world" where
  "init_db drv w mn mx =
     (case db_pool w of
        Some p \<Rightarrow> (Inr p, w)
      | None \<Rightarrow>
          (case connect drv mn mx of
             Some e \<Rightarrow> (Inl e, w)
           | None \<Rightarrow>
               (let p = \<lparr>pool_id = pools_created w, min_size = mn, max_size = mx\<rparr>;
                    w1 = w\<lparr>db_pool := Some p, pools_created := Suc (pools_created w)\<rparr>;
                    w2 = w1\<lparr>sent := sent w1 @ [(''SELECT version();'', [])]\<rparr>
                in case fetchval drv ''SELECT version();'' [] of
                     Inl e \<Rightarrow> (Inl e, w2)
                   | Inr version \<Rightarrow> (Inr p, w2))))"

definition close_db :: "world \<Rightarrow> world" where
  "close_db w =
     (case db_pool w of
        Some p \<Rightarrow> w\<lparr>db_pool := None, pools_closed := Suc (pools_closed w)\<rparr>
      | None \<Rightarrow> w)"

subsection \<open>The tool execute_query\<close>

datatype query_response = ErrorEnvelope string | QueryResults "pydict list"

definition execute_query ::
  "driver \<Rightarrow> pylib \<Rightarrow> world \<Rightarrow> string \<Rightarrow> (exn + query_response) \<times> world" where
  "execute_query drv lib w sql =
     (if \<not> truthy (is_safe_query sql)
      then (Inr (ErrorEnvelope ''Only safe SELECT queries are allowed.''), w)
      else
        (case init_db drv w 2 10 of
           (Inl e, w1) \<Rightarrow> (Inl e, w1)
         | (Inr pool, w1) \<Rightarrow>
             (let w2 = w1\<lparr>sent := sent w1 @ [(sql, [])]\<rparr>
              in case fetch drv sql [] of
                   Inl e \<Rightarrow> (Inl e, w2)
                 | Inr rows \<Rightarrow>
                     (case process_rows lib rows of
                        Inl e \<Rightarrow> (Inl e, w2)
                      | Inr result \<Rightarrow> (Inr (QueryResults result), w2)))))"

subsection \<open>The resources\<close>

text \<open>
  The module \<open>asyncpg\<close> has no attribute \<open>quote_ident\<close> (its identifier quoting is
  the private \<open>asyncpg.utils._quote_ident\<close>): evaluating
  \<open>asyncpg.quote_ident(table_name)\<close> raises \<open>AttributeError\<close>, whatever the name.
\<close>

definition quote_ident :: "string \<Rightarrow> exn + string" where
  "quote_ident ident = Inl (AttributeError ''quote_ident'')"

definition schema_sql :: string where
  "schema_sql =
     ''\<newline>        SELECT column_name, data_type, is_nullable''
   @ ''\<newline>        FROM information_schema.columns''
   @ ''\<newline>        WHERE table_schema = '' @ [CHR 0x27] @ ''public'' @ [CHR 0x27]
   @ '' AND table_name = $1''
   @ ''\<newline>        ORDER BY ordinal_position;''
   @ ''\<newline>    ''"

text \<open>
  The two f-strings that embed \<open>asyncpg.quote_ident(table_name)\<close>; an exception of
  the call leaves no statement text.
\<close>

definition data_sql :: "string \<Rightarrow> exn + string" where
  "data_sql table_name =
     (case quote_ident table_name of
        Inl e \<Rightarrow> Inl e
      | Inr quoted \<Rightarrow> Inr (''SELECT * FROM '' @ quoted @ '' LIMIT $1 OFFSET $2;''))"

definition count_sql :: "string \<Rightarrow> exn + string" where
  "count_sql table_name =
     (case quote_ident table_name of
        Inl e \<Rightarrow> Inl e
      | Inr quoted \<Rightarrow> Inr (''SELECT COUNT(*) FROM '' @ quoted @ '';''))"

record column =
  col_name :: pyvalue
  col_type :: pyvalue
  col_nullable :: bool

datatype schema_response = TableSchema string "column list"
datatype data_response = TableData string "pydict list" nat
datatype stats_response = TableStats string pyvalue nat

text \<open>One element of the list comprehension over the rows of the catalog query.\<close>

definition column_of_row :: "record_row \<Rightarrow> exn + column" where
  "column_of_row r =
     (case record_getitem r ''column_name'' of
        Inl e \<Rightarrow> Inl e
      | Inr n \<Rightarrow>
          (case record_getitem r ''data_type'' of
             Inl e \<Rightarrow> Inl e
           | Inr t \<Rightarrow>
               (case record_getitem r ''is_nullable'' of
                  Inl e \<Rightarrow> Inl e
                | Inr yn \<Rightarrow>
                    Inr \<lparr>col_name = n, col_type = t, col_nullable = (yn = PStr ''YES'')\<rparr>)))"

fun columns_of_rows :: "record_row list \<Rightarrow> exn + column list" where
  "columns_of_rows [] = Inr []"
| "columns_of_rows (r # rows) =
     (case column_of_row r of
        Inl e \<Rightarrow> Inl e
      | Inr c \<Rightarrow> (case columns_of_rows rows of Inl e \<Rightarrow> Inl e | Inr cs \<Rightarrow> Inr (c # cs)))"

definition get_table_schema ::
  "driver \<Rightarrow> world \<Rightarrow> string \<Rightarrow> (exn + schema_response) \<times> world" where
  "get_table_schema drv w table_name =
     (case init_db drv w 2 10 of
        (Inl e, w1) \<Rightarrow> (Inl e, w1)
      | (Inr pool, w1) \<Rightarrow>
          (let w2 = w1\<lparr>sent := sent w1 @ [(schema_sql, [PStr table_name])]\<rparr>
           in case fetch drv schema_sql [PStr table_name] of
                Inl e \<Rightarrow> (Inl e, w2)
              | Inr rows \<Rightarrow>
                  (case columns_of_rows rows of
                     Inl e \<Rightarrow> (Inl e, w2)
                   | Inr cols \<Rightarrow> (Inr (TableSchema table_name cols), w2))))"

definition get_table_data ::
  "driver \<Rightarrow> pylib \<Rightarrow> world \<Rightarrow> string \<Rightarrow> int \<Rightarrow> int \<Rightarrow> (exn + data_response) \<times> world" where
  "get_table_data drv lib w table_name limit offset =
     (case init_db drv w 2 10 of
        (Inl e, w1) \<Rightarrow> (Inl e, w1)
      | (Inr pool, w1) \<Rightarrow>
          (case data_sql table_name of
             Inl e \<Rightarrow> (Inl e, w1)
           | Inr sql \<Rightarrow>
               (let w2 = w1\<lparr>sent := sent w1 @ [(sql, [PInt limit, PInt offset])]\<rparr>
                in case fetch drv sql [PInt limit, PInt offset] of
                     Inl e \<Rightarrow> (Inl e, w2)
                   | Inr rows \<Rightarrow>
                       (case process_rows lib rows of
                          Inl e \<Rightarrow> (Inl e, w2)
                        | Inr processed_sample_data \<Rightarrow>
                            (Inr (TableData table_name processed_sample_data (length rows)),
                             w2)))))"

definition get_table_stats ::
  "driver \<Rightarrow> world \<Rightarrow> string \<Rightarrow> (exn + stats_response) \<times> world" where
  "get_table_stats drv w table_name =
     (case init_db drv w 2 10 of
        (Inl e, w1) \<Rightarrow> (Inl e, w1)
      | (Inr pool, w1) \<Rightarrow>
          (case count_sql table_name of
             Inl e \<Rightarrow> (Inl e, w1)
           | Inr sql \<Rightarrow>
               (let w2 = w1\<lparr>sent := sent w1 @ [(sql, [])]\<rparr>
                in case fetchval drv sql [] of
                     Inl e \<Rightarrow> (Inl e, w2)
                   | Inr total_rows \<Rightarrow>
                       (case get_table_schema drv w2 table_name of
                          (Inl e, w3) \<Rightarrow> (Inl e, w3)
                        | (Inr (TableSchema n cols), w3) \<Rightarrow>
                            (Inr (TableStats table_name total_rows (length cols)), w3)))))"

subsection \<open>The catalog of a PostgreSQL database\<close>

text \<open>
  A catalog gives each table of the schema \<open>public\<close> its columns in ordinal position:
  name, data type and whether the column is nullable. \<open>postgres cat other\<close> is a driver
  that answers the query on \<open>information_schema.columns\<close> from the catalog \<open>cat\<close> and
  everything else as \<open>other\<close> does.
\<close>

type_synonym catalog = "string \<rightharpoonup> (string \<times> string \<times> bool) list"

definition catalog_row :: "string \<times> string \<times> bool \<Rightarrow> record_row" where
  "catalog_row c =
     [(''column_name'', PStr (fst c)),
      (''data_type'', PStr (fst (snd c))),
      (''is_nullable'', PStr (if snd (snd c) then ''YES'' else ''NO''))]"

definition describe :: "string \<times> string \<times> bool \<Rightarrow> column" where
  "describe c =
     \<lparr>col_name = PStr (fst c), col_type = PStr (fst (snd c)), col_nullable = snd (snd c)\<rparr>"

definition catalog_fetch ::
  "catalog \<Rightarrow> driver \<Rightarrow> string \<Rightarrow> pyvalue list \<Rightarrow> exn + record_row list" where
  "catalog_fetch cat other sql args =
     (if sql = schema_sql
      then (case args of
              [PStr table_name] \<Rightarrow>
                (case cat table_name of
                   None \<Rightarrow> Inr []
                 | Some cols \<Rightarrow> Inr (map catalog_row cols))
            | _ \<Rightarrow> fetch other sql args)
      else fetch other sql args)"

definition postgres :: "catalog \<Rightarrow> driver \<Rightarrow> driver" where
  "postgres cat other = other\<lparr>fetch := catalog_fetch cat other\<rparr>"

section \<open>The SQLite server (database_mcp_server.py)\<close>

text \<open>
  The SQLAlchemy engine: \<open>session.execute(text(sql), params).fetchall()\<close> with each row
  as its mapping, and \<open>inspector.get_columns\<close>.
\<close>

record engine =
  execute :: "string \<Rightarrow> (string \<times> pyvalue) list \<Rightarrow> exn + pydict list"
  get_columns :: "string \<Rightarrow> exn + column list"

definition execute_query_v1 :: "engine \<Rightarrow> string \<Rightarrow> exn + query_response" where
  "execute_query_v1 eng sql =
     (if \<not> is_safe_query_v1 sql
      then Inr (ErrorEnvelope
        (''Potentially dangerous SQL operations are not allowed. ''
         @ ''Only SELECT queries are permitted.''))
      else (case execute eng sql [] of
              Inl e \<Rightarrow> Inl e
            | Inr rows \<Rightarrow> Inr (QueryResults rows)))"

definition get_table_schema_v1 :: "engine \<Rightarrow> string \<Rightarrow> exn + schema_response" where
  "get_table_schema_v1 eng table_name =
     (case get_columns eng table_name of
        Inl e \<Rightarrow> Inl e
      | Inr cols \<Rightarrow> Inr (TableSchema table_name cols))"

definition data_sql_v1 :: "string \<Rightarrow> string" where
  "data_sql_v1 table_name = ''SELECT * FROM '' @ table_name @ '' LIMIT :limit OFFSET :offset''"

definition count_sql_v1 :: "string \<Rightarrow> string" where
  "count_sql_v1 table_name = ''SELECT COUNT(*) FROM '' @ table_name"

text \<open>
  The statements a resource hands to \<open>session.execute\<close>, each with its bound
  parameters, are listed in a log, oldest first.
\<close>

type_synonym statement_log = "(string \<times> (string \<times> pyvalue) list) list"

definition get_table_data_v1 ::
  "engine \<Rightarrow> statement_log \<Rightarrow> string \<Rightarrow> int \<Rightarrow> int \<Rightarrow> (exn + data_response) \<times> statement_log" where
  "get_table_data_v1 eng log table_name limit offset =
     (let params = [(''limit'', PInt limit), (''offset'', PInt offset)];
          log1 = log @ [(data_sql_v1 table_name, params)]
      in case execute eng (data_sql_v1 table_name) params of
           Inl e \<Rightarrow> (Inl e, log1)
         | Inr data \<Rightarrow> (Inr (TableData table_name data (length data)), log1))"

text \<open>\<open>.scalar()\<close>: the first column of the first row, \<open>None\<close> when there is no row.\<close>

definition scalar :: "pydict list \<Rightarrow> pyvalue" where
  "scalar rows = (case rows of [] \<Rightarrow> PNone | r # _ \<Rightarrow> (case r of [] \<Rightarrow> PNone | kv # _ \<Rightarrow> snd kv))"

definition get_table_stats_v1 ::
  "engine \<Rightarrow> statement_log \<Rightarrow> string \<Rightarrow> (exn + stats_response) \<times> statement_log" where
  "get_table_stats_v1 eng log table_name =
     (let log1 = log @ [(count_sql_v1 table_name, [])]
      in case execute eng (count_sql_v1 table_name) [] of
           Inl e \<Rightarrow> (Inl e, log1)
         | Inr rows \<Rightarrow>
             (case get_columns eng table_name of
                Inl e \<Rightarrow> (Inl e, log1)
              | Inr cols \<Rightarrow> (Inr (TableStats table_name (scalar rows) (length cols)), log1)))"

section \<open>Sample inputs\<close>

text \<open>
  A library, a driver and a starting state on which the definitions can be run. The
  driver connects and answers the version probe; it knows a table \<open>blobs\<close>, accepts
  one \<open>CREATE TABLE\<close> statement and raises \<open>UndefinedTableError\<close> on everything else.
\<close>

definition sample_lib :: pylib where
  "sample_lib =
     \<lparr>isoformat = (\<lambda>t. ''2024-01-02T03:04:05''), float_of = (\<lambda>x. Float 5 (- 1))\<rparr>"

definition sample_fetch :: "string \<Rightarrow> pyvalue list \<Rightarrow> exn + record_row list" where
  "sample_fetch sql args =
     (if sql = ''SELECT payload, taken_on FROM blobs''
      then Inr [[(''payload'', PBytes [222, 173]), (''taken_on'', PDate 2024 1 2)]]
      else if sql = ''CREATE TABLE t (id int)'' then Inr []
      else Inl (DriverError ''UndefinedTableError''))"

definition sample_fetchval :: "string \<Rightarrow> pyvalue list \<Rightarrow> exn + pyvalue" where
  "sample_fetchval sql args =
     (if sql = ''SELECT version();'' then Inr (PStr ''PostgreSQL 16.3'')
      else Inl (DriverError ''UndefinedTableError''))"

definition sample_driver :: driver where
  "sample_driver =
     \<lparr>connect = (\<lambda>mn mx. None), fetch = sample_fetch, fetchval = sample_fetchval\<rparr>"

definition world0 :: world where
  "world0 = \<lparr>db_pool = None, pools_created = 0, pools_closed = 0, sent = []\<rparr>"

definition pool0 :: pool where
  "pool0 = \<lparr>pool_id = 0, min_size = 2, max_size = 10\<rparr>"

definition world1 :: world where
  "world1 =
     \<lparr>db_pool = Some pool0, pools_created = 1, pools_closed = 0,
      sent = [(''SELECT version();'', [])]\<rparr>"

text \<open>
  A catalog with one table \<open>users\<close> of two columns and a catalog with one table \<open>t\<close>
  that has no column (\<open>CREATE TABLE t ();\<close>).
\<close>

definition users_catalog :: catalog where
  "users_catalog = [''users'' \<mapsto> [(''id'', ''integer'', False), (''email'', ''text'', True)]]"

definition bare_catalog :: catalog where
  "bare_catalog = [''t'' \<mapsto> []]"

text \<open>
  An SQLite engine with one table \<open>users\<close> of two rows. It cuts a page as SQLite does
  (a negative \<open>LIMIT\<close> is no limit, a negative \<open>OFFSET\<close> is none), counts the rows of
  \<open>users\<close>, and knows no other table.
\<close>

definition users_rows :: "pydict list" where
  "users_rows =
     [[(''id'', PInt 1), (''email'', PStr ''ada@example.org'')],
      [(''id'', PInt 2), (''email'', PNone)]]"

definition sample_execute :: "string \<Rightarrow> (string \<times> pyvalue) list \<Rightarrow> exn + pydict list" where
  "sample_execute sql params =
     (if sql = data_sql_v1 ''users''
      then (case params of
              [(l, PInt limit), (off, PInt offset)] \<Rightarrow>
                Inr ((if limit < 0 then (\<lambda>rows. rows) else take (nat limit))
                       (drop (nat offset) users_rows))
            | _ \<Rightarrow> Inl (DriverError ''StatementError''))
      else if sql = count_sql_v1 ''users'' then Inr [[(''COUNT(*)'', PInt 2)]]
      else Inl (DriverError ''OperationalError''))"

definition sample_get_columns :: "string \<Rightarrow> exn + column list" where
  "sample_get_columns table_name =
     (if table_name = ''users''
      then Inr [\<lparr>col_name = PStr ''id'', col_type = PStr ''INTEGER'', col_nullable = False\<rparr>,
                \<lparr>col_name = PStr ''email'', col_type = PStr ''TEXT'', col_nullable = True\<rparr>]
      else Inl (DriverError ''NoSuchTableError''))"

definition sample_engine :: engine where
  "sample_engine = \<lparr>execute = sample_execute, get_columns = sample_get_columns\<rparr>"

section \<open>The classifier of the PostgreSQL server\<close>

subsection \<open>Tokens\<close>

lemma is_space_lower_char: "is_space (lower_char c) = is_space c"
proof -
  have lt: "(of_char c :: nat) < 256" by simp
  show ?thesis
    unfolding is_space_def lower_char_def Let_def
    using lt by auto
qed

lemma split_Nil: 
  assumes "dropWhile is_space s = []" 
  shows "split s = []"
  by (subst split.simps) (simp only: assms list.case)

lemma split_Cons:
  assumes "dropWhile is_space s = c # cs"
  shows "split s = (c # takeWhile (\<lambda>x. \<not> is_space x) cs) # split (dropWhile (\<lambda>x. \<not> is_space x) cs)"
  by (subst split.simps) (simp only: assms list.case)

lemma dropWhile_space_lower:
  "dropWhile is_space (lower s) = lower (dropWhile is_space s)"
  by (induction s) (simp_all add: lower_def is_space_lower_char)

lemma takeWhile_nonspace_lower:
  "takeWhile (\<lambda>x. \<not> is_space x) (lower s) = lower (takeWhile (\<lambda>x. \<not> is_space x) s)"
  by (induction s) (simp_all add: lower_def is_space_lower_char)

lemma dropWhile_nonspace_lower:
  "dropWhile (\<lambda>x. \<not> is_space x) (lower s) = lower (dropWhile (\<lambda>x. \<not> is_space x) s)"
  by (induction s) (simp_all add: lower_def is_space_lower_char)

lemma split_lower: "split (lower s) = map lower (split s)"
proof (induction s rule: split.induct)
  case (1 s)
  show ?case
  proof (cases "dropWhile is_space s")
    case Nil
    have "dropWhile is_space (lower s) = []"
      by (simp only: dropWhile_space_lower Nil) (simp add: lower_def)
    then show ?thesis
      by (simp only: split_Nil [OF Nil] split_Nil list.map)
  next
    case (Cons c cs)
    have ih: "split (lower (dropWhile (\<lambda>x. \<not> is_space x) cs))
          = map lower (split (dropWhile (\<lambda>x. \<not> is_space x) cs))"
      using 1 [OF Cons] .
    have "dropWhile is_space (lower s) = lower_char c # lower cs"
      by (simp only: dropWhile_space_lower Cons) (simp add: lower_def)
    from split_Cons [OF this] show ?thesis
      by (simp only: split_Cons [OF Cons] takeWhile_nonspace_lower dropWhile_nonspace_lower ih)
         (simp add: lower_def)
  qed
qed

lemma split_skip: "is_space c \<Longrightarrow> split (c # s) = split s"
  by (subst split.simps, subst (2) split.simps) simp

lemma split_spaces: "\<forall>c \<in> set pre. is_space c \<Longrightarrow> split (pre @ s) = split s"
  by (induction pre) (simp_all add: split_skip)

lemma split_token:
  assumes "w \<noteq> []" "\<forall>c \<in> set w. \<not> is_space c" "post = [] \<or> is_space (hd post)"
  shows "split (w @ post) = w # split post"
proof -
  obtain c cs where w: "w = c # cs" using assms(1) by (cases w) auto
  have ns: "\<not> is_space c" "\<forall>x \<in> set cs. \<not> is_space x" using assms(2) w by auto
  have tk: "takeWhile (\<lambda>x. \<not> is_space x) (cs @ post) = cs"
    using ns(2) assms(3) by (cases post) (simp_all add: takeWhile_append2 takeWhile_tail)
  have dr: "dropWhile (\<lambda>x. \<not> is_space x) (cs @ post) = post"
    using ns(2) assms(3) by (cases post) (simp_all add: dropWhile_append2)
  have "dropWhile is_space (w @ post) = c # (cs @ post)"
    using ns(1) w by simp
  from split_Cons [OF this] show ?thesis
    by (simp only: tk dr w)
qed

lemma split_append:
  "pre = [] \<or> is_space (last pre) \<Longrightarrow> split (pre @ s) = split pre @ split s"
proof (induction pre rule: split.induct)
  case (1 pre)
  show ?case
  proof (cases "dropWhile is_space pre")
    case Nil
    then have "\<forall>c \<in> set pre. is_space c"
      by (simp only: dropWhile_eq_Nil_conv)
    then show ?thesis
      by (simp only: split_spaces split_Nil [OF Nil] append_Nil)
  next
    case (Cons c cs)
    let ?tok = "c # takeWhile (\<lambda>x. \<not> is_space x) cs"
    let ?rest = "dropWhile (\<lambda>x. \<not> is_space x) cs"
    have pre: "pre = takeWhile is_space pre @ ?tok @ ?rest"
      using Cons by (metis append_Cons takeWhile_dropWhile_id)
    have ne: "pre \<noteq> []" using Cons by auto
    then have sp: "is_space (last pre)" using "1.prems" by simp
    have rest_ne: "?rest \<noteq> []"
    proof
      assume e: "?rest = []"
      then have "\<forall>x \<in> set cs. \<not> is_space x" by (simp only: dropWhile_eq_Nil_conv)
      moreover have "\<not> is_space c" using Cons by (metis hd_dropWhile list.sel(1) list.distinct(1))
      ultimately have "\<forall>x \<in> set (c # cs). \<not> is_space x" by simp
      moreover have "last pre \<in> set (c # cs)"
        by (metis Cons last_in_set list.distinct(1) last_appendR takeWhile_dropWhile_id)
      ultimately show False using sp by blast
    qed
    have rest_sp: "?rest = [] \<or> is_space (last ?rest)"
      using rest_ne sp pre by (metis last_appendR append_is_Nil_conv list.distinct(1))
    have ih: "split (?rest @ s) = split ?rest @ split s"
      using 1(1) [OF Cons rest_sp] .
    have hd_rest: "is_space (hd ?rest)"
      using rest_ne by (metis hd_dropWhile)
    have h_in: "hd ?rest \<in> set cs"
      using rest_ne by (metis hd_in_set set_dropWhileD)
    have tk: "takeWhile (\<lambda>x. \<not> is_space x) (cs @ s) = takeWhile (\<lambda>x. \<not> is_space x) cs"
      using takeWhile_append1 [OF h_in, of "\<lambda>x. \<not> is_space x" s] hd_rest by simp
    have c_in: "c \<in> set pre" "\<not> is_space c"
      using Cons by (metis list.set_intros(1) set_dropWhileD, metis hd_dropWhile list.sel(1) list.distinct(1))
    have d1: "dropWhile is_space (pre @ s) = c # (cs @ s)"
      using dropWhile_append1 [OF c_in(1), of is_space s] c_in(2) Cons by simp
    have d2: "dropWhile (\<lambda>x. \<not> is_space x) (cs @ s) = ?rest @ s"
      using dropWhile_append1 [OF h_in, of "\<lambda>x. \<not> is_space x" s] hd_rest by simp
    show ?thesis
      by (simp only: split_Cons [OF d1] split_Cons [OF Cons] tk d2 ih append_Cons)
  qed
qed

subsection \<open>Denied keywords\<close>

lemma keyword_chars:
  assumes "k \<in> set DENIED_KEYWORDS"
  shows "k \<noteq> [] \<and> (\<forall>c \<in> set k. \<not> is_space c)"
  using assms by (auto simp: DENIED_KEYWORDS_def is_space_def)

lemma token_of_keyword:
  assumes "k \<in> set DENIED_KEYWORDS" "lower w = k"
  shows "w \<noteq> [] \<and> (\<forall>c \<in> set w. \<not> is_space c)"
proof -
  from keyword_chars [OF assms(1)] have k: "k \<noteq> []" "\<forall>c \<in> set k. \<not> is_space c" by auto
  have "w \<noteq> []" using k(1) assms(2) by (auto simp: lower_def)
  moreover have "\<not> is_space c" if "c \<in> set w" for c
  proof -
    have "lower_char c \<in> set k" using that assms(2) by (auto simp: lower_def)
    then show ?thesis using k(2) is_space_lower_char by blast
  qed
  ultimately show ?thesis by blast
qed

lemma token_in_split:
  assumes "w \<noteq> []" "\<forall>c \<in> set w. \<not> is_space c"
    "pre = [] \<or> is_space (last pre)" "post = [] \<or> is_space (hd post)"
  shows "w \<in> set (split (pre @ w @ post))"
  by (simp add: split_append [OF assms(3)] split_token [OF assms(1,2,4)])

lemma rejected_iff:
  "truthy (is_safe_query sql) =
     (split sql \<noteq> [] \<and> \<not> list_ex (\<lambda>k. k \<in> lower ` set (split sql)) DENIED_KEYWORDS)"
  by (simp add: is_safe_query_def Let_def split_lower)


lemma execute_query_rejects:
  "\<not> truthy (is_safe_query sql) \<Longrightarrow>
   execute_query drv lib w sql = (Inr (ErrorEnvelope ''Only safe SELECT queries are allowed.''), w)"
  by (simp add: execute_query_def)

lemma execute_query_permits:
  "truthy (is_safe_query sql) \<Longrightarrow>
   fst (execute_query drv lib w sql) \<noteq> Inr (ErrorEnvelope msg)"
  by (simp add: execute_query_def Let_def split: prod.splits sum.splits)

text \<open>
  C1. A query text in which a denylisted keyword stands as a token of its own, in any
  letter case, at the start of the text or behind whitespace and at the end of the text
  or before whitespace, is classified as rejected, and \<open>execute_query\<close> returns the
  error envelope without touching the pool or the database. A query text with at least
  one token, none of whose tokens is a denylisted keyword in any letter case, is
  permitted, also when a keyword is part of a longer token.
\<close>

theorem denied_keyword_token_rejected:
  "(k \<in> set DENIED_KEYWORDS \<and> lower w = k
      \<and> (pre = [] \<or> is_space (last pre)) \<and> (post = [] \<or> is_space (hd post))
    \<longrightarrow> \<not> truthy (is_safe_query (pre @ w @ post))
        \<and> execute_query drv lib st (pre @ w @ post)
            = (Inr (ErrorEnvelope ''Only safe SELECT queries are allowed.''), st))
   \<and> (split sql \<noteq> [] \<and> (\<forall>t \<in> set (split sql). lower t \<notin> set DENIED_KEYWORDS)
    \<longrightarrow> truthy (is_safe_query sql)
        \<and> fst (execute_query drv lib st sql) \<noteq> Inr (ErrorEnvelope msg))"
proof (intro conjI impI)
  assume a: "k \<in> set DENIED_KEYWORDS \<and> lower w = k
      \<and> (pre = [] \<or> is_space (last pre)) \<and> (post = [] \<or> is_space (hd post))"
  then have k: "k \<in> set DENIED_KEYWORDS" and w: "lower w = k"
    and pre: "pre = [] \<or> is_space (last pre)" and post: "post = [] \<or> is_space (hd post)"
    by simp_all
  from token_of_keyword [OF k w] have "w \<noteq> []" "\<forall>c \<in> set w. \<not> is_space c" by simp_all
  from token_in_split [OF this pre post] have "w \<in> set (split (pre @ w @ post))" .
  then have "k \<in> lower ` set (split (pre @ w @ post))" using w by blast
  then have "list_ex (\<lambda>k. k \<in> lower ` set (split (pre @ w @ post))) DENIED_KEYWORDS"
    using k by (auto simp: list_ex_iff)
  then show r: "\<not> truthy (is_safe_query (pre @ w @ post))"
    by (simp only: rejected_iff) simp
  show "execute_query drv lib st (pre @ w @ post)
            = (Inr (ErrorEnvelope ''Only safe SELECT queries are allowed.''), st)"
    by (rule execute_query_rejects [OF r])
next
  assume b: "split sql \<noteq> [] \<and> (\<forall>t \<in> set (split sql). lower t \<notin> set DENIED_KEYWORDS)"
  then have "\<not> list_ex (\<lambda>k. k \<in> lower ` set (split sql)) DENIED_KEYWORDS"
    by (auto simp: list_ex_iff)
  with b show t: "truthy (is_safe_query sql)"
    by (simp only: rejected_iff) simp
  show "fst (execute_query drv lib st sql) \<noteq> Inr (ErrorEnvelope msg)"
    by (rule execute_query_permits [OF t])
qed

theorem denied_keyword_token_rejected_witness:
  "\<not> truthy (is_safe_query ''  DROP TABLE users;'')
   \<and> execute_query sample_driver sample_lib world1 ''  DROP TABLE users;''
       = (Inr (ErrorEnvelope ''Only safe SELECT queries are allowed.''), world1)
   \<and> truthy (is_safe_query ''SELECT * FROM dropped_items'')
   \<and> fst (execute_query sample_driver sample_lib world1 ''SELECT * FROM dropped_items'')
       \<noteq> Inr (ErrorEnvelope ''Only safe SELECT queries are allowed.'')"
proof -
  have h1: "''drop'' \<in> set DENIED_KEYWORDS" by (simp add: DENIED_KEYWORDS_def)
  have h2: "lower ''DROP'' = ''drop''" by code_simp
  have h3: "is_space (last ''  '')" by code_simp
  have h4: "is_space (hd '' TABLE users;'')" by code_simp
  have h5: "split ''SELECT * FROM dropped_items'' = [''SELECT'', ''*'', ''FROM'', ''dropped_items'']"
    by code_simp
  have h6: "\<forall>t \<in> set (split ''SELECT * FROM dropped_items''). lower t \<notin> set DENIED_KEYWORDS"
    unfolding h5 by code_simp
  show ?thesis
    using denied_keyword_token_rejected [where k = "''drop''" and w = "''DROP''"
        and pre = "''  ''" and post = "'' TABLE users;''"
        and sql = "''SELECT * FROM dropped_items''" and drv = sample_driver
        and lib = sample_lib and st = world1
        and msg = "''Only safe SELECT queries are allowed.''"]
      h1 h2 h3 h4 h5 h6
    by simp
qed

section \<open>The original classifier permits everything\<close>

text \<open>
  C2. The classifier of database_mcp_server.py answers \<open>True\<close> for every query text:
  each branch of its keyword tests returns \<open>True\<close>.
\<close>

theorem is_safe_query_v1_always_True: "is_safe_query_v1 sql = True"
  by (simp add: is_safe_query_v1_def Let_def)

theorem is_safe_query_v1_always_True_witness:
  "is_safe_query_v1 ''DROP TABLE users'' = True"
  using is_safe_query_v1_always_True [of "''DROP TABLE users''"] by simp

section \<open>Pool initialization\<close>

lemma init_db_first: "init_db sample_driver world0 2 10 = (Inr pool0, world1)"
  by (simp add: init_db_def sample_driver_def sample_fetchval_def world0_def world1_def
      pool0_def Let_def)

text \<open>
  C7. When the pool is initialized, \<open>init_db\<close> returns that pool and leaves the state
  of the process as it is, whatever sizes it is called with: no pool is created and
  nothing is sent to the database.
\<close>

theorem init_db_idempotent:
  "db_pool w = Some p \<Longrightarrow> init_db drv w mn mx = (Inr p, w)"
  by (simp add: init_db_def)

theorem init_db_idempotent_witness:
  "db_pool world1 = Some pool0
   \<and> init_db sample_driver world0 2 10 = (Inr pool0, world1)
   \<and> init_db sample_driver world1 2 10 = (Inr pool0, world1)"
proof -
  have h: "db_pool world1 = Some pool0" by (simp add: world1_def)
  show ?thesis
    using h init_db_idempotent [OF h, of sample_driver 2 10] init_db_first by simp
qed

section \<open>The result serializer\<close>

subsection \<open>Records and dictionaries\<close>










subsection \<open>The conversion loop\<close>










subsection \<open>Values without a conversion rule\<close>





section \<open>Statements that reach the database\<close>

text \<open>
  C3. The classifier does not look at the leading token. A \<open>CREATE TABLE\<close> statement,
  whose first token is \<open>create\<close>, is classified as permitted, and \<open>execute_query\<close>
  hands it to the database.
\<close>

theorem non_select_statement_permitted:
  "hd (split (lower ''CREATE TABLE t (id int)'')) = ''create''
   \<and> truthy (is_safe_query ''CREATE TABLE t (id int)'')
   \<and> execute_query sample_driver sample_lib world1 ''CREATE TABLE t (id int)''
       = (Inr (QueryResults []),
          world1\<lparr>sent := sent world1 @ [(''CREATE TABLE t (id int)'', [])]\<rparr>)"
proof -
  have s: "split (lower ''CREATE TABLE t (id int)'') = [''create'', ''table'', ''t'', ''(id'', ''int)'']"
    by code_simp
  have t: "truthy (is_safe_query ''CREATE TABLE t (id int)'')"
    by (simp add: is_safe_query_def s DENIED_KEYWORDS_def)
  have f: "fetch sample_driver ''CREATE TABLE t (id int)'' [] = Inr []"
    by (simp add: sample_driver_def sample_fetch_def)
  have w: "db_pool world1 = Some pool0" by (simp add: world1_def)
  show ?thesis
    using t f w by (simp add: s execute_query_def init_db_def Let_def)
qed

section \<open>Table names in statements\<close>

lemma get_table_data_v1_log:
  "snd (get_table_data_v1 eng log table_name limit offset)
     = log @ [(data_sql_v1 table_name, [(''limit'', PInt limit), (''offset'', PInt offset)])]"
  by (simp add: get_table_data_v1_def Let_def split: sum.splits)

lemma get_table_stats_v1_log:
  "snd (get_table_stats_v1 eng log table_name) = log @ [(count_sql_v1 table_name, [])]"
  by (simp add: get_table_stats_v1_def Let_def split: sum.splits)

lemma get_table_data_no_quote_ident:
  "init_db drv w 2 10 = (Inr p, w1) \<Longrightarrow>
   get_table_data drv lib w table_name limit offset = (Inl (AttributeError ''quote_ident''), w1)"
  by (simp add: get_table_data_def data_sql_def quote_ident_def)

lemma get_table_stats_no_quote_ident:
  "init_db drv w 2 10 = (Inr p, w1) \<Longrightarrow>
   get_table_stats drv w table_name = (Inl (AttributeError ''quote_ident''), w1)"
  by (simp add: get_table_stats_def count_sql_def quote_ident_def)

lemma init_db_ready: "init_db sample_driver world1 2 10 = (Inr pool0, world1)"
  by (simp add: init_db_def world1_def)

text \<open>
  C4. The resources of database_mcp_server.py put the table name into the statement as
  it comes: a name that carries a second statement yields the text of two statements,
  while limit and offset travel as bound parameters. The resources of
  database_mcp_serverv2.py call \<open>asyncpg.quote_ident\<close> on the name and end there with
  \<open>AttributeError\<close>, before a statement is sent.
\<close>

theorem raw_table_name_in_statement:
  "snd (get_table_data_v1 sample_engine [] ''users; DROP TABLE users; --'' 10 0)
     = [(''SELECT * FROM users; DROP TABLE users; -- LIMIT :limit OFFSET :offset'',
         [(''limit'', PInt 10), (''offset'', PInt 0)])]
   \<and> snd (get_table_stats_v1 sample_engine [] ''users; DROP TABLE users'')
     = [(''SELECT COUNT(*) FROM users; DROP TABLE users'', [])]
   \<and> get_table_data sample_driver sample_lib world1 ''users'' 10 0
     = (Inl (AttributeError ''quote_ident''), world1)
   \<and> get_table_stats sample_driver world1 ''users''
     = (Inl (AttributeError ''quote_ident''), world1)"
  by (simp add: get_table_data_v1_log get_table_stats_v1_log data_sql_v1_def count_sql_v1_def
      get_table_data_no_quote_ident [OF init_db_ready]
      get_table_stats_no_quote_ident [OF init_db_ready])

section \<open>Pagination\<close>

lemma users_page:
  "fst (get_table_data_v1 sample_engine log ''users'' (- 5) 0)
     = Inr (TableData ''users'' users_rows 2)"
  by (simp add: get_table_data_v1_def sample_engine_def sample_execute_def users_rows_def Let_def)

text \<open>
  A negative limit and a limit of a million millions reach the database as the bound
  parameter \<open>:limit\<close>, as they were given; with the negative one the engine returns
  every row of the table.
\<close>

theorem limit_forwarded_counterexample:
  "snd (get_table_data_v1 sample_engine [] ''users'' (- 5) 0)
     = [(data_sql_v1 ''users'', [(''limit'', PInt (- 5)), (''offset'', PInt 0)])]
   \<and> fst (get_table_data_v1 sample_engine [] ''users'' (- 5) 0)
     = Inr (TableData ''users'' users_rows 2)
   \<and> snd (get_table_data_v1 sample_engine [] ''users'' 1000000000000 0)
     = [(data_sql_v1 ''users'', [(''limit'', PInt 1000000000000), (''offset'', PInt 0)])]"
  by (simp add: get_table_data_v1_log users_page)

text \<open>
  C8, as the code has it. \<open>get_table_data\<close> of database_mcp_server.py has no check of
  its arguments: with every engine and every table name it hands exactly one statement to
  the database, the page query, with the limit and the offset it was given as the bound
  parameters \<open>:limit\<close> and \<open>:offset\<close>, whatever their values.
\<close>

theorem limit_forwarded_unchecked:
  "snd (get_table_data_v1 eng log table_name limit offset)
     = log @ [(data_sql_v1 table_name, [(''limit'', PInt limit), (''offset'', PInt offset)])]"
  by (rule get_table_data_v1_log)

theorem limit_forwarded_unchecked_witness:
  "snd (get_table_data_v1 sample_engine [] ''users'' 0 0)
     = [(''SELECT * FROM users LIMIT :limit OFFSET :offset'',
         [(''limit'', PInt 0), (''offset'', PInt 0)])]"
  using limit_forwarded_unchecked [of sample_engine "[]" "''users''" 0 0]
  by (simp add: data_sql_v1_def)

section \<open>Tables and the catalog\<close>

lemma column_of_catalog_row: "column_of_row (catalog_row c) = Inr (describe c)"
  by (simp add: column_of_row_def catalog_row_def describe_def record_getitem_def)

lemma columns_of_catalog_rows: "columns_of_rows (map catalog_row cols) = Inr (map describe cols)"
  by (induction cols) (simp_all add: column_of_catalog_row)

lemma postgres_fetch_schema:
  "fetch (postgres cat other) schema_sql [PStr table_name]
     = Inr (case cat table_name of None \<Rightarrow> [] | Some cols \<Rightarrow> map catalog_row cols)"
  by (simp add: postgres_def catalog_fetch_def split: option.splits)

lemma get_table_schema_catalog:
  "db_pool w = Some p \<Longrightarrow>
   get_table_schema (postgres cat other) w table_name
     = (Inr (TableSchema table_name
          (case cat table_name of None \<Rightarrow> [] | Some cols \<Rightarrow> map describe cols)),
        w\<lparr>sent := sent w @ [(schema_sql, [PStr table_name])]\<rparr>)"
  by (simp add: get_table_schema_def init_db_def postgres_fetch_schema columns_of_catalog_rows
      split: option.splits)

text \<open>
  For a name that is not in the catalog, \<open>get_table_schema\<close> succeeds with an empty
  list of columns.
\<close>

theorem absent_table_schema_counterexample:
  "users_catalog ''ghost'' = None
   \<and> fst (get_table_schema (postgres users_catalog sample_driver) world1 ''ghost'')
       = Inr (TableSchema ''ghost'' [])"
proof -
  have "db_pool world1 = Some pool0" by (simp add: world1_def)
  from get_table_schema_catalog [OF this, of users_catalog sample_driver "''ghost''"]
  show ?thesis by (simp add: users_catalog_def)
qed

text \<open>
  C5, as the code has it. No resource looks a table name up before using it, and none
  has an error of its own for an unknown table. For a name absent from the catalog,
  \<open>get_table_schema\<close> of database_mcp_serverv2.py sends the catalog query, with the name
  as its bind argument \<open>$1\<close> and nowhere in the statement text, and succeeds with no
  columns; \<open>get_table_schema\<close> of database_mcp_server.py fails when the inspector
  raises, with the exception of the inspector.
\<close>

theorem absent_table_not_checked:
  "(cat table_name = None \<and> db_pool w = Some p \<longrightarrow>
      get_table_schema (postgres cat other) w table_name
        = (Inr (TableSchema table_name []),
           w\<lparr>sent := sent w @ [(schema_sql, [PStr table_name])]\<rparr>))
   \<and> (get_columns eng table_name = Inl e \<longrightarrow> get_table_schema_v1 eng table_name = Inl e)"
  by (simp add: get_table_schema_catalog get_table_schema_v1_def)

theorem absent_table_not_checked_witness:
  "get_table_schema (postgres users_catalog sample_driver) world1 ''ghost''
     = (Inr (TableSchema ''ghost'' []),
        world1\<lparr>sent := [(''SELECT version();'', []), (schema_sql, [PStr ''ghost''])]\<rparr>)
   \<and> get_table_schema_v1 sample_engine ''ghost'' = Inl (DriverError ''NoSuchTableError'')"
proof -
  have h1: "users_catalog ''ghost'' = None" by (simp add: users_catalog_def)
  have h2: "db_pool world1 = Some pool0" by (simp add: world1_def)
  have h3: "get_columns sample_engine ''ghost'' = Inl (DriverError ''NoSuchTableError'')"
    by (simp add: sample_engine_def sample_get_columns_def)
  show ?thesis
    using absent_table_not_checked [where cat = users_catalog and table_name = "''ghost''"
        and w = world1 and p = pool0 and other = sample_driver and eng = sample_engine
        and e = "DriverError ''NoSuchTableError''"]
      h1 h2 h3
    by (simp add: world1_def)
qed

lemma get_table_stats_v1_count:
  assumes "fst (get_table_stats_v1 eng log table_name) = Inr (TableStats n total_rows column_count)"
  shows "\<exists>columns. get_table_schema_v1 eng table_name = Inr (TableSchema table_name columns)
           \<and> length columns = column_count"
  using assms
  by (auto simp: get_table_stats_v1_def get_table_schema_v1_def Let_def split: sum.splits)

text \<open>
  A table of the catalog that has no column is described with an empty list of columns.
\<close>

theorem table_without_columns_counterexample:
  "bare_catalog ''t'' = Some []
   \<and> fst (get_table_schema (postgres bare_catalog sample_driver) world1 ''t'')
       = Inr (TableSchema ''t'' [])"
proof -
  have w: "db_pool world1 = Some pool0" by (simp add: world1_def)
  show ?thesis
    using get_table_schema_catalog [OF w, of bare_catalog sample_driver "''t''"]
    by (simp add: bare_catalog_def)
qed

text \<open>
  C9, as the code has it. For a table of the catalog, \<open>get_table_schema\<close> of
  database_mcp_serverv2.py returns the descriptors of the table's columns in their
  order, as many as the table has columns, and none when it has none. In
  database_mcp_server.py, a \<open>column_count\<close> that \<open>get_table_stats\<close> returns is the
  length of the column list \<open>get_table_schema\<close> returns for the same table.
\<close>

theorem schema_length_is_column_count:
  "(cat table_name = Some cols \<and> db_pool w = Some p \<longrightarrow>
      fst (get_table_schema (postgres cat other) w table_name)
        = Inr (TableSchema table_name (map describe cols)))
   \<and> (fst (get_table_stats_v1 eng log table_name)
         = Inr (TableStats n total_rows column_count) \<longrightarrow>
      (\<exists>columns. get_table_schema_v1 eng table_name = Inr (TableSchema table_name columns)
         \<and> length columns = column_count))"
  using get_table_stats_v1_count [of eng log table_name n total_rows column_count]
  by (simp add: get_table_schema_catalog)

theorem schema_length_is_column_count_witness:
  "fst (get_table_schema (postgres users_catalog sample_driver) world1 ''users'')
     = Inr (TableSchema ''users''
         [\<lparr>col_name = PStr ''id'', col_type = PStr ''integer'', col_nullable = False\<rparr>,
          \<lparr>col_name = PStr ''email'', col_type = PStr ''text'', col_nullable = True\<rparr>])
   \<and> fst (get_table_stats_v1 sample_engine [] ''users'') = Inr (TableStats ''users'' (PInt 2) 2)
   \<and> (\<exists>columns. get_table_schema_v1 sample_engine ''users'' = Inr (TableSchema ''users'' columns)
         \<and> length columns = 2)"
proof -
  have h1: "users_catalog ''users'' = Some [(''id'', ''integer'', False), (''email'', ''text'', True)]"
    by (simp add: users_catalog_def)
  have h2: "db_pool world1 = Some pool0" by (simp add: world1_def)
  have h3: "fst (get_table_stats_v1 sample_engine [] ''users'') = Inr (TableStats ''users'' (PInt 2) 2)"
    by (simp add: get_table_stats_v1_def sample_engine_def sample_execute_def
        sample_get_columns_def data_sql_v1_def count_sql_v1_def scalar_def Let_def)
  show ?thesis
    using schema_length_is_column_count [where cat = users_catalog and table_name = "''users''"
        and cols = "[(''id'', ''integer'', False), (''email'', ''text'', True)]"
        and w = world1 and p = pool0 and other = sample_driver and eng = sample_engine
        and log = "[]" and n = "''users''" and total_rows = "PInt 2" and column_count = 2]
      h1 h2 h3
    by (simp add: describe_def)
qed

end
